theory Spec2Isabelle
  imports Complex_Main
begin

section \<open>Python values, exceptions and the log\<close>

text \<open>
  The projection engine (\<^verbatim>\<open>quantitative_model.py\<close>) and the document orchestrator
  (\<^verbatim>\<open>report_generator.py\<close>) work on dictionaries with string keys whose values are
  Python scalars. A Python \<^verbatim>\<open>float\<close> is modelled as an exact real number: rounding,
  infinities, NaN and the finite range of IEEE doubles are outside this embedding, and
  \<^verbatim>\<open>float(i)\<close> of an integer is the integer itself. \<^verbatim>\<open>bool\<close> is a subclass of
  \<^verbatim>\<open>int\<close> in Python, so \<open>PBool\<close> passes every \<^verbatim>\<open>isinstance(v, int)\<close> test.
\<close>

datatype pyval = PNone | PBool bool | PInt int | PFloat real | PStr string

type_synonym pydict = "string \<rightharpoonup> pyval"

datatype py_exn =
    TypeError | ValueError | OverflowError | ZeroDivisionError | RuntimeError
  | ReportGenerationError | ReportRenderingError | OtherException string

text \<open>
  Only the records of level WARNING and ERROR are kept in the model of the log; the
  DEBUG and INFO records of the source format floats into text and no property below
  depends on them. A record is kept as a structured event, not as the formatted text.
\<close>

datatype log_level = WARNING | ERROR

datatype log_event =
    NonNumericValue pyval string real
  | CagrComplexResult pyval pyval pyval
  | CagrError pyval pyval pyval py_exn
  | MissingAssumptions string
  | InvalidProjectionData
  | PdfBuildError string py_exn
  | ReportFailed string py_exn
  | SomeReportsFailed "(string \<times> string) list"

type_synonym log = "(log_level \<times> log_event) list"

text \<open>
  A computation that may raise and that writes to the log: the log written so far is kept
  when an exception is raised.
\<close>

type_synonym 'a res = "(py_exn + 'a) \<times> log"

definition ok :: "'a \<Rightarrow> 'a res" where
  "ok v = (Inr v, [])"

definition bind :: "'a res \<Rightarrow> ('a \<Rightarrow> 'b res) \<Rightarrow> 'b res" where
  "bind m f =
     (case m of
        (Inl e, l) \<Rightarrow> (Inl e, l)
      | (Inr v, l) \<Rightarrow> (case f v of (r, l') \<Rightarrow> (r, l @ l')))"

definition logged :: "'a \<times> log \<Rightarrow> 'a res" where
  "logged p = (Inr (fst p), snd p)"

definition raising :: "py_exn + 'a \<Rightarrow> 'a res" where
  "raising r = (r, [])"

definition log_record :: "log_level \<Rightarrow> log_event \<Rightarrow> unit res" where
  "log_record lvl ev = (Inr (), [(lvl, ev)])"

section \<open>Numeric helpers of the engine\<close>

fun is_int :: "pyval \<Rightarrow> bool" where
  "is_int (PInt i) = True"
| "is_int (PBool b) = True"
| "is_int v = False"

fun is_numeric :: "pyval \<Rightarrow> bool" where
  "is_numeric (PInt i) = True"
| "is_numeric (PBool b) = True"
| "is_numeric (PFloat r) = True"
| "is_numeric v = False"

text \<open>\<^verbatim>\<open>float(val)\<close> of a value that passed the \<^verbatim>\<open>isinstance\<close> test; the numeric value
  of an operand of a comparison or an arithmetic operator, which raises TypeError on
  \<^verbatim>\<open>None\<close> and on a string.\<close>

fun num_of :: "pyval \<Rightarrow> py_exn + real" where
  "num_of (PInt i) = Inr (real_of_int i)"
| "num_of (PBool b) = Inr (if b then 1 else 0)"
| "num_of (PFloat r) = Inr r"
| "num_of v = Inl TypeError"

definition to_float :: "pyval \<Rightarrow> real" where
  "to_float v = (case num_of v of Inr r \<Rightarrow> r | Inl e \<Rightarrow> 0)"

text \<open>\<^verbatim>\<open>_safe_get_numeric(data, key, default)\<close>: \<^verbatim>\<open>data.get(key)\<close> is \<^verbatim>\<open>None\<close> for a
  missing key and for a key stored with the value \<^verbatim>\<open>None\<close>.\<close>

definition safe_get_numeric :: "pydict \<Rightarrow> string \<Rightarrow> real \<Rightarrow> real \<times> log" where
  "safe_get_numeric data key dflt =
     (let val = (case data key of None \<Rightarrow> PNone | Some v \<Rightarrow> v) in
      if val = PNone then (dflt, [])
      else if \<not> is_numeric val then (dflt, [(WARNING, NonNumericValue val key dflt)])
      else (to_float val, []))"

subsection \<open>The CAGR calculator\<close>

text \<open>The operators used by \<^verbatim>\<open>_calculate_cagr\<close>. \<^verbatim>\<open>v == 0\<close> never raises;
  \<^verbatim>\<open>v < 0\<close>, \<^verbatim>\<open>v <= 0\<close> and \<^verbatim>\<open>a / b\<close> raise TypeError on a non-numeric operand,
  and \<^verbatim>\<open>a / b\<close> raises ZeroDivisionError on a zero divisor.\<close>

definition py_eq_zero :: "pyval \<Rightarrow> bool" where
  "py_eq_zero v = (case num_of v of Inr r \<Rightarrow> r = 0 | Inl e \<Rightarrow> False)"

definition py_lt_zero :: "pyval \<Rightarrow> py_exn + bool" where
  "py_lt_zero v = (case num_of v of Inr r \<Rightarrow> Inr (r < 0) | Inl e \<Rightarrow> Inl e)"

definition py_le_zero :: "pyval \<Rightarrow> py_exn + bool" where
  "py_le_zero v = (case num_of v of Inr r \<Rightarrow> Inr (r \<le> 0) | Inl e \<Rightarrow> Inl e)"

definition py_truediv :: "pyval \<Rightarrow> pyval \<Rightarrow> py_exn + real" where
  "py_truediv a b =
     (case num_of a of
        Inl e \<Rightarrow> Inl e
      | Inr x \<Rightarrow>
          (case num_of b of
             Inl e \<Rightarrow> Inl e
           | Inr y \<Rightarrow> if y = 0 then Inl ZeroDivisionError else Inr (x / y)))"

text \<open>\<^verbatim>\<open>x ** y\<close> on floats: a negative base with a non-integral exponent gives a
  complex number in Python 3, zero to a negative power raises ZeroDivisionError.\<close>

datatype pow_result = RealPow real | ComplexPow

definition py_pow :: "real \<Rightarrow> real \<Rightarrow> py_exn + pow_result" where
  "py_pow x y =
     (if x = 0 then
        (if y < 0 then Inl ZeroDivisionError
         else Inr (RealPow (if y = 0 then 1 else 0)))
      else if 0 < x then Inr (RealPow (x powr y))
      else if y = real_of_int \<lfloor>y\<rfloor> then Inr (RealPow (x powi \<lfloor>y\<rfloor>))
      else Inr ComplexPow)"

text \<open>The body of the \<^verbatim>\<open>try\<close> block: the value of
  \<^verbatim>\<open>((end_val / start_val)**(1.0 / num_years) - 1) * 100.0\<close>, or the exception it
  raises.\<close>

definition cagr_formula :: "pyval \<Rightarrow> pyval \<Rightarrow> pyval \<Rightarrow> py_exn + pow_result" where
  "cagr_formula start_val end_val num_years =
     (case py_truediv end_val start_val of
        Inl e \<Rightarrow> Inl e
      | Inr q \<Rightarrow>
          (case py_truediv (PFloat 1) num_years of
             Inl e \<Rightarrow> Inl e
           | Inr p \<Rightarrow>
               (case py_pow q p of
                  Inl e \<Rightarrow> Inl e
                | Inr ComplexPow \<Rightarrow> Inr ComplexPow
                | Inr (RealPow r) \<Rightarrow> Inr (RealPow ((r - 1) * 100)))))"

text \<open>The \<^verbatim>\<open>try\<close> statement: a complex result and the three exception classes of the
  \<^verbatim>\<open>except\<close> clause become the reason "N/A (Calculation Error)" with an ERROR record;
  any other exception propagates.\<close>

definition cagr_try :: "pyval \<Rightarrow> pyval \<Rightarrow> pyval \<Rightarrow> pyval res" where
  "cagr_try start_val end_val num_years =
     (case cagr_formula start_val end_val num_years of
        Inr (RealPow c) \<Rightarrow> ok (PFloat c)
      | Inr ComplexPow \<Rightarrow>
          bind (log_record ERROR (CagrComplexResult start_val end_val num_years))
            (\<lambda>u. ok (PStr ''N/A (Calculation Error)''))
      | Inl e \<Rightarrow>
          (if e \<in> {ValueError, OverflowError, ZeroDivisionError}
           then bind (log_record ERROR (CagrError start_val end_val num_years e))
                  (\<lambda>u. ok (PStr ''N/A (Calculation Error)''))
           else raising (Inl e)))"

definition calculate_cagr :: "pyval \<Rightarrow> pyval \<Rightarrow> pyval \<Rightarrow> pyval res" where
  "calculate_cagr start_val end_val num_years =
     (if \<not> is_int num_years then ok (PStr ''N/A (Invalid Years)'')
      else bind (raising (py_le_zero num_years)) (\<lambda>years_le_zero.
        if years_le_zero then ok (PStr ''N/A (Invalid Years)'')
        else if \<not> (is_numeric start_val \<and> is_numeric end_val)
          then ok (PStr ''N/A (Invalid Values)'')
        else if py_eq_zero start_val then ok (PStr ''N/A (Zero Base)'')
        else bind (raising (py_lt_zero start_val)) (\<lambda>start_negative.
          if start_negative then ok (PStr ''N/A (Negative Value)'')
          else bind (raising (py_lt_zero end_val)) (\<lambda>end_negative.
            if end_negative then ok (PStr ''N/A (Negative Value)'')
            else cagr_try start_val end_val num_years))))"

section \<open>The projection engine\<close>

type_synonym projection_bundle = "string \<rightharpoonup> pydict"

text \<open>The local variables that hold the figures read from the baseline.\<close>

record baseline_figures =
  base_revenue :: real
  base_ebitda :: real
  base_ebitda_margin :: real
  base_rnd_spend :: real
  base_net_income :: real
  base_net_margin :: real

definition years_of :: "string \<Rightarrow> int" where
  "years_of timeframe =
     (case map_of [(''one_year'', 1), (''five_year'', 5), (''ten_year'', 10)] timeframe of
        None \<Rightarrow> 0
      | Some y \<Rightarrow> y)"

definition revenue_key :: "string \<Rightarrow> string" where
  "revenue_key timeframe =
     (if timeframe = ''one_year'' then ''revenue_growth_pct''
      else ''cumulative_revenue_growth_pct'')"

text \<open>The body of the projection loop for a timeframe that has assumptions.\<close>

definition project_timeframe :: "baseline_figures \<Rightarrow> string \<Rightarrow> pydict \<Rightarrow> pydict res" where
  "project_timeframe base timeframe assumptions =
     (let years = PInt (years_of timeframe) in
      bind (logged (safe_get_numeric assumptions (revenue_key timeframe) 0)) (\<lambda>growth_pct.
      let proj_rev = base_revenue base * (1 + growth_pct / 100) in
      bind (calculate_cagr (PFloat (base_revenue base)) (PFloat proj_rev) years) (\<lambda>revenue_cagr.
      bind (logged (safe_get_numeric assumptions ''ebitda_margin_improvement'' 0))
        (\<lambda>ebitda_margin_improvement_pp.
      let proj_ebitda_margin =
            max 0 (min 1 (base_ebitda_margin base + ebitda_margin_improvement_pp / 100));
          proj_ebitda = proj_rev * proj_ebitda_margin in
      bind (calculate_cagr (PFloat (base_ebitda base)) (PFloat proj_ebitda) years) (\<lambda>ebitda_cagr.
      bind (logged (safe_get_numeric assumptions ''r_and_d_increase'' 0)) (\<lambda>rnd_increase_pct.
      let proj_rnd = base_rnd_spend base * (1 + rnd_increase_pct / 100) in
      bind (calculate_cagr (PFloat (base_rnd_spend base)) (PFloat proj_rnd) years) (\<lambda>rnd_cagr.
      let net_margin_improvement_pp = ebitda_margin_improvement_pp / 2;
          proj_net_margin =
            max 0 (min 1 (base_net_margin base + net_margin_improvement_pp / 100));
          proj_net_income = proj_rev * proj_net_margin in
      bind (calculate_cagr (PFloat (base_net_income base)) (PFloat proj_net_income) years)
        (\<lambda>net_income_cagr.
      ok [''projected_revenue'' \<mapsto> PFloat proj_rev,
          ''revenue_cagr'' \<mapsto> revenue_cagr,
          ''projected_ebitda'' \<mapsto> PFloat proj_ebitda,
          ''projected_ebitda_margin'' \<mapsto> PFloat proj_ebitda_margin,
          ''ebitda_cagr'' \<mapsto> ebitda_cagr,
          ''projected_r_and_d_spend'' \<mapsto> PFloat proj_rnd,
          ''rnd_cagr'' \<mapsto> rnd_cagr,
          ''projected_net_income'' \<mapsto> PFloat proj_net_income,
          ''projected_net_margin'' \<mapsto> PFloat proj_net_margin,
          ''net_income_cagr'' \<mapsto> net_income_cagr]))))))))"

text \<open>The \<^verbatim>\<open>for\<close> loop over the three timeframes; a timeframe without assumptions gets
  the empty dictionary and a warning, and the loop goes on.\<close>

fun projection_loop ::
  "baseline_figures \<Rightarrow> (string \<rightharpoonup> pydict) \<Rightarrow> string list \<Rightarrow> projection_bundle \<Rightarrow> projection_bundle res" where
  "projection_loop base growth_assumptions [] results = ok results"
| "projection_loop base growth_assumptions (timeframe # rest) results =
     (case growth_assumptions timeframe of
        None \<Rightarrow>
          bind (log_record WARNING (MissingAssumptions timeframe))
            (\<lambda>u. projection_loop base growth_assumptions rest
                    (results(timeframe \<mapsto> Map.empty)))
      | Some assumptions \<Rightarrow>
          bind (project_timeframe base timeframe assumptions)
            (\<lambda>projections. projection_loop base growth_assumptions rest
                    (results(timeframe \<mapsto> projections))))"

definition timeframes :: "string list" where
  "timeframes = [''one_year'', ''five_year'', ''ten_year'']"

definition calculate_10k_projections :: "pydict \<Rightarrow> (string \<rightharpoonup> pydict) \<Rightarrow> projection_bundle res" where
  "calculate_10k_projections baseline_data growth_assumptions =
     (let results = [''baseline'' \<mapsto> baseline_data] in
      bind (logged (safe_get_numeric baseline_data ''revenue'' 0)) (\<lambda>revenue.
      bind (logged (safe_get_numeric baseline_data ''ebitda'' 0)) (\<lambda>ebitda.
      bind (logged (safe_get_numeric baseline_data ''ebitda_margin'' 0)) (\<lambda>ebitda_margin.
      bind (logged (safe_get_numeric baseline_data ''r_and_d_spend'' 0)) (\<lambda>rnd_spend.
      bind (logged (safe_get_numeric baseline_data ''net_income'' 0)) (\<lambda>net_income.
      let base = \<lparr>base_revenue = revenue, base_ebitda = ebitda,
                  base_ebitda_margin = ebitda_margin, base_rnd_spend = rnd_spend,
                  base_net_income = net_income,
                  base_net_margin = (if revenue \<noteq> 0 then net_income / revenue else 0)\<rparr> in
      projection_loop base growth_assumptions timeframes results))))))"

text \<open>Closed forms of the engine's results, used to state what it computes: the CAGR of
  two floats over an integer number of years, the figures read from a baseline, the
  projection of one timeframe and the whole bundle.\<close>

definition cagr_value :: "real \<Rightarrow> real \<Rightarrow> int \<Rightarrow> pyval" where
  "cagr_value start_val end_val num_years =
     (if num_years \<le> 0 then PStr ''N/A (Invalid Years)''
      else if start_val = 0 then PStr ''N/A (Zero Base)''
      else if start_val < 0 \<or> end_val < 0 then PStr ''N/A (Negative Value)''
      else PFloat (((end_val / start_val) powr (1 / real_of_int num_years) - 1) * 100))"

definition figures_of :: "pydict \<Rightarrow> baseline_figures" where
  "figures_of baseline_data =
     (let revenue = fst (safe_get_numeric baseline_data ''revenue'' 0);
          net_income = fst (safe_get_numeric baseline_data ''net_income'' 0) in
      \<lparr>base_revenue = revenue,
       base_ebitda = fst (safe_get_numeric baseline_data ''ebitda'' 0),
       base_ebitda_margin = fst (safe_get_numeric baseline_data ''ebitda_margin'' 0),
       base_rnd_spend = fst (safe_get_numeric baseline_data ''r_and_d_spend'' 0),
       base_net_income = net_income,
       base_net_margin = (if revenue \<noteq> 0 then net_income / revenue else 0)\<rparr>)"

definition projection_of :: "baseline_figures \<Rightarrow> string \<Rightarrow> pydict \<Rightarrow> pydict" where
  "projection_of base timeframe assumptions =
     (let years = years_of timeframe;
          growth_pct = fst (safe_get_numeric assumptions (revenue_key timeframe) 0);
          improvement_pp = fst (safe_get_numeric assumptions ''ebitda_margin_improvement'' 0);
          rnd_increase_pct = fst (safe_get_numeric assumptions ''r_and_d_increase'' 0);
          proj_rev = base_revenue base * (1 + growth_pct / 100);
          proj_ebitda_margin = max 0 (min 1 (base_ebitda_margin base + improvement_pp / 100));
          proj_ebitda = proj_rev * proj_ebitda_margin;
          proj_rnd = base_rnd_spend base * (1 + rnd_increase_pct / 100);
          proj_net_margin = max 0 (min 1 (base_net_margin base + improvement_pp / 2 / 100));
          proj_net_income = proj_rev * proj_net_margin in
      [''projected_revenue'' \<mapsto> PFloat proj_rev,
       ''revenue_cagr'' \<mapsto> cagr_value (base_revenue base) proj_rev years,
       ''projected_ebitda'' \<mapsto> PFloat proj_ebitda,
       ''projected_ebitda_margin'' \<mapsto> PFloat proj_ebitda_margin,
       ''ebitda_cagr'' \<mapsto> cagr_value (base_ebitda base) proj_ebitda years,
       ''projected_r_and_d_spend'' \<mapsto> PFloat proj_rnd,
       ''rnd_cagr'' \<mapsto> cagr_value (base_rnd_spend base) proj_rnd years,
       ''projected_net_income'' \<mapsto> PFloat proj_net_income,
       ''projected_net_margin'' \<mapsto> PFloat proj_net_margin,
       ''net_income_cagr'' \<mapsto> cagr_value (base_net_income base) proj_net_income years])"

definition bundle_of :: "pydict \<Rightarrow> (string \<rightharpoonup> pydict) \<Rightarrow> projection_bundle" where
  "bundle_of baseline_data growth_assumptions =
     (\<lambda>k. if k \<in> set timeframes then
            (case growth_assumptions k of
               None \<Rightarrow> Some Map.empty
             | Some assumptions \<Rightarrow> Some (projection_of (figures_of baseline_data) k assumptions))
          else if k = ''baseline'' then Some baseline_data
          else None)"

section \<open>The engine on a store of dictionaries\<close>

text \<open>
  Python dictionaries are mutable objects that the caller and the engine share by
  reference. The store holds the dictionaries of scalars (baselines, assumption sets,
  projections) and the dictionaries whose values are references to those (the growth
  assumptions, the bundle); a reference is an index into the store, and a new object is
  appended. The engine reads through the two references it is given, allocates the copy
  of the baseline and the dictionaries of the bundle, and writes only into the bundle.
\<close>

record store =
  figures :: "pydict list"
  tables :: "(string \<rightharpoonup> nat) list"

definition new_figures :: "store \<Rightarrow> pydict \<Rightarrow> store \<times> nat" where
  "new_figures s d = (s\<lparr>figures := figures s @ [d]\<rparr>, length (figures s))"

definition new_table :: "store \<Rightarrow> (string \<rightharpoonup> nat) \<Rightarrow> store \<times> nat" where
  "new_table s t = (s\<lparr>tables := tables s @ [t]\<rparr>, length (tables s))"

definition table_set :: "store \<Rightarrow> nat \<Rightarrow> string \<Rightarrow> nat \<Rightarrow> store" where
  "table_set s r k a = s\<lparr>tables := (tables s)[r := (tables s ! r)(k \<mapsto> a)]\<rparr>"

text \<open>The dictionary of dictionaries that a table denotes in a store.\<close>

definition deref :: "store \<Rightarrow> (string \<rightharpoonup> nat) \<Rightarrow> (string \<rightharpoonup> pydict)" where
  "deref s t = (\<lambda>k. case t k of None \<Rightarrow> None | Some a \<Rightarrow> Some (figures s ! a))"

text \<open>The arguments of a call are references to objects of the store, and so are the values
  of the growth-assumptions dictionary.\<close>

definition valid_args :: "store \<Rightarrow> nat \<Rightarrow> nat \<Rightarrow> bool" where
  "valid_args s baseline_ref assumptions_ref \<longleftrightarrow>
     baseline_ref < length (figures s) \<and> assumptions_ref < length (tables s) \<and>
     (\<forall>a \<in> ran (tables s ! assumptions_ref). a < length (figures s))"

fun projection_loop_in ::
  "baseline_figures \<Rightarrow> store \<Rightarrow> nat \<Rightarrow> string list \<Rightarrow> nat \<Rightarrow> store res" where
  "projection_loop_in base s assumptions_ref [] results_ref = ok s"
| "projection_loop_in base s assumptions_ref (timeframe # rest) results_ref =
     (case (tables s ! assumptions_ref) timeframe of
        None \<Rightarrow>
          bind (log_record WARNING (MissingAssumptions timeframe)) (\<lambda>u.
            let (s1, empty_ref) = new_figures s Map.empty in
            projection_loop_in base (table_set s1 results_ref timeframe empty_ref)
              assumptions_ref rest results_ref)
      | Some a \<Rightarrow>
          bind (project_timeframe base timeframe (figures s ! a)) (\<lambda>projections.
            let (s1, projections_ref) = new_figures s projections in
            projection_loop_in base (table_set s1 results_ref timeframe projections_ref)
              assumptions_ref rest results_ref))"

text \<open>The engine called with references; \<open>None\<close> when the arguments are not references to
  dictionaries of the store, which no call of the source is.\<close>

definition calculate_10k_projections_in :: "store \<Rightarrow> nat \<Rightarrow> nat \<Rightarrow> (store \<times> nat) res option" where
  "calculate_10k_projections_in s baseline_ref assumptions_ref =
     (if \<not> valid_args s baseline_ref assumptions_ref then None
      else Some
        (let (s1, copy_ref) = new_figures s (figures s ! baseline_ref);
             (s2, results_ref) = new_table s1 [''baseline'' \<mapsto> copy_ref];
             baseline_data = figures s2 ! baseline_ref in
         bind (logged (safe_get_numeric baseline_data ''revenue'' 0)) (\<lambda>revenue.
         bind (logged (safe_get_numeric baseline_data ''ebitda'' 0)) (\<lambda>ebitda.
         bind (logged (safe_get_numeric baseline_data ''ebitda_margin'' 0)) (\<lambda>ebitda_margin.
         bind (logged (safe_get_numeric baseline_data ''r_and_d_spend'' 0)) (\<lambda>rnd_spend.
         bind (logged (safe_get_numeric baseline_data ''net_income'' 0)) (\<lambda>net_income.
         let base = \<lparr>base_revenue = revenue, base_ebitda = ebitda,
                     base_ebitda_margin = ebitda_margin, base_rnd_spend = rnd_spend,
                     base_net_income = net_income,
                     base_net_margin = (if revenue \<noteq> 0 then net_income / revenue else 0)\<rparr> in
         bind (projection_loop_in base s2 assumptions_ref timeframes results_ref)
           (\<lambda>s3. ok (s3, results_ref)))))))))"

section \<open>The document orchestrator\<close>











section \<open>Properties of the CAGR calculator\<close>

lemma bind_Inr: "bind (Inr v, l) f = (fst (f v), l @ snd (f v))"
  by (simp add: bind_def split: prod.splits)

lemma bind_Inl: "bind (Inl e, l) f = (Inl e, l)"
  by (simp add: bind_def)

lemma bind_ok: "bind (ok v) f = f v"
  by (simp add: bind_def ok_def split: prod.splits)

lemma bind_logged: "bind (logged p) f = (fst (f (fst p)), snd p @ snd (f (fst p)))"
  by (simp add: logged_def bind_Inr)

lemma bind_raising_Inr: "bind (raising (Inr v)) f = f v"
  by (simp add: raising_def bind_def split: prod.splits)

lemma bind_raising_Inl: "bind (raising (Inl e)) f = (Inl e, [])"
  by (simp add: raising_def bind_def)

lemma bind_log_record: "bind (log_record lvl ev) f = (fst (f ()), (lvl, ev) # snd (f ()))"
  by (simp add: log_record_def bind_Inr)

lemma is_numeric_num_of: "is_numeric v \<longleftrightarrow> (\<exists>r. num_of v = Inr r)"
  by (cases v) simp_all


lemma cagr_formula_positive:
  assumes "num_of s = Inr a" "num_of e = Inr b" "num_of y = Inr n" "0 < a" "0 \<le> b" "0 < n"
  shows "cagr_formula s e y = Inr (RealPow (((b / a) powr (1 / n) - 1) * 100))"
proof -
  have q: "py_truediv e s = Inr (b / a)"
    using assms by (simp add: py_truediv_def)
  have p: "py_truediv (PFloat 1) y = Inr (1 / n)"
    using assms by (simp add: py_truediv_def)
  have pw: "py_pow (b / a) (1 / n) = Inr (RealPow ((b / a) powr (1 / n)))"
    using assms by (simp add: py_pow_def)
  show ?thesis
    by (simp add: cagr_formula_def q p pw)
qed


lemma cagr_years_le_zero:
  "num_of y = Inr n \<Longrightarrow> n \<le> 0 \<Longrightarrow>
   calculate_cagr s e y = (Inr (PStr ''N/A (Invalid Years)''), [])"
  by (simp add: calculate_cagr_def py_le_zero_def bind_raising_Inr ok_def)

lemma cagr_valid_years:
  assumes "is_int y" "num_of y = Inr n" "0 < n"
  shows "calculate_cagr s e y =
     (if \<not> (is_numeric s \<and> is_numeric e) then ok (PStr ''N/A (Invalid Values)'')
      else if py_eq_zero s then ok (PStr ''N/A (Zero Base)'')
      else bind (raising (py_lt_zero s)) (\<lambda>start_negative.
          if start_negative then ok (PStr ''N/A (Negative Value)'')
          else bind (raising (py_lt_zero e)) (\<lambda>end_negative.
            if end_negative then ok (PStr ''N/A (Negative Value)'')
            else cagr_try s e y)))"
  using assms by (simp add: calculate_cagr_def py_le_zero_def bind_raising_Inr)


lemma cagr_zero_base:
  assumes "is_int y" "num_of y = Inr n" "0 < n" "is_numeric e" "num_of s = Inr 0"
  shows "calculate_cagr s e y = (Inr (PStr ''N/A (Zero Base)''), [])"
proof -
  have "is_numeric s" using assms(5) by (simp add: is_numeric_num_of)
  then show ?thesis
    using assms(4,5) by (simp add: cagr_valid_years[OF assms(1-3)] ok_def py_eq_zero_def)
qed

lemma cagr_negative:
  assumes "is_int y" "num_of y = Inr n" "0 < n"
    and "num_of s = Inr a" "num_of e = Inr b" "a \<noteq> 0" "a < 0 \<or> b < 0"
  shows "calculate_cagr s e y = (Inr (PStr ''N/A (Negative Value)''), [])"
proof -
  have "is_numeric s" "is_numeric e"
    using assms(4,5) by (simp_all add: is_numeric_num_of)
  then show ?thesis
    using assms(4-7)
    by (auto simp add: cagr_valid_years[OF assms(1-3)] ok_def py_eq_zero_def py_lt_zero_def
        bind_raising_Inr)
qed

lemma cagr_try_positive:
  assumes "num_of s = Inr a" "num_of e = Inr b" "num_of y = Inr n" "0 < a" "0 \<le> b" "0 < n"
  shows "cagr_try s e y = (Inr (PFloat (((b / a) powr (1 / n) - 1) * 100)), [])"
  by (simp add: cagr_try_def cagr_formula_positive[OF assms] ok_def)

lemma cagr_nonnegative:
  assumes "is_int y" "num_of y = Inr n" "0 < n"
    and "num_of s = Inr a" "num_of e = Inr b" "0 < a" "0 \<le> b"
  shows "calculate_cagr s e y = (Inr (PFloat (((b / a) powr (1 / n) - 1) * 100)), [])"
proof -
  have "is_numeric s" "is_numeric e"
    using assms(4,5) by (simp_all add: is_numeric_num_of)
  then show ?thesis
    using assms(4-7)
    by (simp add: cagr_valid_years[OF assms(1-3)] py_eq_zero_def py_lt_zero_def
        bind_raising_Inr cagr_try_positive[OF assms(4,5,2,6,7,3)])
qed


lemma cagr_floats:
  "calculate_cagr (PFloat s) (PFloat e) (PInt y) = (Inr (cagr_value s e y), [])"
proof (cases "y \<le> 0")
  case True
  then show ?thesis
    by (simp add: cagr_years_le_zero[of "PInt y" "real_of_int y"] cagr_value_def)
next
  case False
  then have valid: "is_int (PInt y)" "num_of (PInt y) = Inr (real_of_int y)" "0 < real_of_int y"
    by simp_all
  consider "s = 0" | "s \<noteq> 0" "s < 0 \<or> e < 0" | "0 < s" "0 \<le> e"
    by linarith
  then show ?thesis
  proof cases
    case 1
    then show ?thesis
      using False cagr_zero_base[OF valid, of "PFloat e" "PFloat s"]
      by (simp add: cagr_value_def)
  next
    case 2
    then show ?thesis
      using False cagr_negative[OF valid, of "PFloat s" s "PFloat e" e]
      by (simp add: cagr_value_def)
  next
    case 3
    then show ?thesis
      using False cagr_nonnegative[OF valid, of "PFloat s" s "PFloat e" e]
      by (auto simp add: cagr_value_def)
  qed
qed





section \<open>Properties of the projection engine\<close>

text \<open>The engine always returns: the body of the loop and the loop itself have closed
  forms, and so has the bundle.\<close>

lemma bind_cagr_floats:
  "bind (calculate_cagr (PFloat s) (PFloat e) (PInt y)) f = f (cagr_value s e y)"
  by (simp add: cagr_floats bind_Inr)

lemma project_timeframe_eq:
  "project_timeframe base timeframe assumptions =
     (Inr (projection_of base timeframe assumptions),
      snd (safe_get_numeric assumptions (revenue_key timeframe) 0) @
      snd (safe_get_numeric assumptions ''ebitda_margin_improvement'' 0) @
      snd (safe_get_numeric assumptions ''r_and_d_increase'' 0))"
  by (simp add: project_timeframe_def projection_of_def Let_def bind_logged bind_cagr_floats
      ok_def)

lemma projection_loop_eq:
  "\<exists>l. projection_loop base ga tfs results =
     (Inr (\<lambda>k. if k \<in> set tfs then
                 (case ga k of None \<Rightarrow> Some Map.empty
                  | Some a \<Rightarrow> Some (projection_of base k a))
               else results k), l)"
proof (induction tfs arbitrary: results)
  case Nil
  then show ?case by (simp add: ok_def)
next
  case (Cons tf tfs)
  show ?case
  proof (cases "ga tf")
    case None
    obtain l where l: "projection_loop base ga tfs (results(tf \<mapsto> Map.empty)) =
      (Inr (\<lambda>k. if k \<in> set tfs then
                 (case ga k of None \<Rightarrow> Some Map.empty
                  | Some a \<Rightarrow> Some (projection_of base k a))
               else (results(tf \<mapsto> Map.empty)) k), l)"
      using Cons.IH by blast
    show ?thesis
      using None by (auto simp add: bind_log_record l intro!: ext)
  next
    case (Some a)
    obtain l where l: "projection_loop base ga tfs (results(tf \<mapsto> projection_of base tf a)) =
      (Inr (\<lambda>k. if k \<in> set tfs then
                 (case ga k of None \<Rightarrow> Some Map.empty
                  | Some a \<Rightarrow> Some (projection_of base k a))
               else (results(tf \<mapsto> projection_of base tf a)) k), l)"
      using Cons.IH by blast
    show ?thesis
      using Some by (auto simp add: project_timeframe_eq bind_Inr l intro!: ext)
  qed
qed

lemma calculate_eq:
  "\<exists>l. calculate_10k_projections b ga = (Inr (bundle_of b ga), l)"
proof -
  obtain l where l: "projection_loop (figures_of b) ga timeframes [''baseline'' \<mapsto> b] =
     (Inr (\<lambda>k. if k \<in> set timeframes then
                 (case ga k of None \<Rightarrow> Some Map.empty
                  | Some a \<Rightarrow> Some (projection_of (figures_of b) k a))
               else [''baseline'' \<mapsto> b] k), l)"
    using projection_loop_eq by blast
  have eq: "(\<lambda>k. if k \<in> set timeframes then
                 (case ga k of None \<Rightarrow> Some Map.empty
                  | Some a \<Rightarrow> Some (projection_of (figures_of b) k a))
               else [''baseline'' \<mapsto> b] k) = bundle_of b ga"
    by (auto simp add: bundle_of_def fun_eq_iff split: option.splits)
  have fo: "\<lparr>base_revenue = fst (safe_get_numeric b ''revenue'' 0),
       base_ebitda = fst (safe_get_numeric b ''ebitda'' 0),
       base_ebitda_margin = fst (safe_get_numeric b ''ebitda_margin'' 0),
       base_rnd_spend = fst (safe_get_numeric b ''r_and_d_spend'' 0),
       base_net_income = fst (safe_get_numeric b ''net_income'' 0),
       base_net_margin = (if fst (safe_get_numeric b ''revenue'' 0) \<noteq> 0
          then fst (safe_get_numeric b ''net_income'' 0) / fst (safe_get_numeric b ''revenue'' 0)
          else 0)\<rparr> = figures_of b"
    by (simp add: figures_of_def Let_def)
  show ?thesis
    by (simp add: calculate_10k_projections_def Let_def bind_logged fo l eq)
qed


lemma bundle_of_timeframe:
  "timeframe \<in> set timeframes \<Longrightarrow> ga timeframe = Some a \<Longrightarrow>
   bundle_of b ga timeframe = Some (projection_of (figures_of b) timeframe a)"
  by (simp add: bundle_of_def)

lemma bundle_of_missing:
  "timeframe \<in> set timeframes \<Longrightarrow> ga timeframe = None \<Longrightarrow>
   bundle_of b ga timeframe = Some Map.empty"
  by (simp add: bundle_of_def)


lemma projection_of_revenue:
  "projection_of base tf a ''projected_revenue'' =
     Some (PFloat (base_revenue base *
        (1 + fst (safe_get_numeric a (revenue_key tf) 0) / 100)))"
  by (simp add: projection_of_def Let_def)

lemma projection_of_ebitda_margin:
  "projection_of base tf a ''projected_ebitda_margin'' =
     Some (PFloat (max 0 (min 1 (base_ebitda_margin base +
        fst (safe_get_numeric a ''ebitda_margin_improvement'' 0) / 100))))"
  by (simp add: projection_of_def Let_def)

lemma projection_of_ebitda:
  "projection_of base tf a ''projected_ebitda'' =
     Some (PFloat (base_revenue base *
        (1 + fst (safe_get_numeric a (revenue_key tf) 0) / 100) *
        max 0 (min 1 (base_ebitda_margin base +
        fst (safe_get_numeric a ''ebitda_margin_improvement'' 0) / 100))))"
  by (simp add: projection_of_def Let_def)


lemma projection_of_net_margin:
  "projection_of base tf a ''projected_net_margin'' =
     Some (PFloat (max 0 (min 1 (base_net_margin base +
        fst (safe_get_numeric a ''ebitda_margin_improvement'' 0) / 2 / 100))))"
  by (simp add: projection_of_def Let_def)


lemma projection_of_nonempty: "projection_of base tf a \<noteq> Map.empty"
proof
  assume "projection_of base tf a = Map.empty"
  then have "projection_of base tf a ''projected_revenue'' = None" by simp
  then show False by (simp add: projection_of_revenue)
qed

lemma calculate_fst: "fst (calculate_10k_projections b ga) = Inr (bundle_of b ga)"
  using calculate_eq[of b ga] by (elim exE) (simp only: fst_conv)

lemma clamp_unit_interval: "0 \<le> max 0 (min 1 x)" "max 0 (min 1 x) \<le> (1::real)"
  by (simp_all add: max_def min_def)






text \<open>
  Claim C3. In every non-empty projection of a timeframe that the engine returns, the
  values stored under \<open>projected_ebitda_margin\<close> and \<open>projected_net_margin\<close> lie in
  \<open>[0, 1]\<close>, and \<open>projected_ebitda\<close> is \<open>projected_revenue\<close> times the stored
  \<open>projected_ebitda_margin\<close>.
\<close>

theorem margins_clamped:
  assumes "fst (calculate_10k_projections baseline_data growth_assumptions) = Inr results"
    and "timeframe \<in> set timeframes"
    and "results timeframe = Some projections"
    and "projections \<noteq> Map.empty"
  shows "\<exists>proj_rev margin net_margin.
     projections ''projected_revenue'' = Some (PFloat proj_rev) \<and>
     projections ''projected_ebitda_margin'' = Some (PFloat margin) \<and>
     0 \<le> margin \<and> margin \<le> 1 \<and>
     projections ''projected_net_margin'' = Some (PFloat net_margin) \<and>
     0 \<le> net_margin \<and> net_margin \<le> 1 \<and>
     projections ''projected_ebitda'' = Some (PFloat (proj_rev * margin))"
proof -
  have res: "results = bundle_of baseline_data growth_assumptions"
    using assms(1) calculate_eq[of baseline_data growth_assumptions] by auto
  show ?thesis
  proof (cases "growth_assumptions timeframe")
    case None
    then have "results timeframe = Some Map.empty"
      using assms(2) by (simp add: res bundle_of_missing)
    then show ?thesis using assms(3,4) by simp
  next
    case (Some a)
    then have p: "projections = projection_of (figures_of baseline_data) timeframe a"
      using assms(2,3) by (simp add: res bundle_of_timeframe)
    show ?thesis
      unfolding p projection_of_revenue projection_of_ebitda_margin projection_of_ebitda
        projection_of_net_margin
      by (simp add: clamp_unit_interval)
  qed
qed

theorem margins_clamped_witness:
  "\<exists>results projections.
     fst (calculate_10k_projections
            [''revenue'' \<mapsto> PInt 100, ''ebitda_margin'' \<mapsto> PFloat 0.95]
            [''one_year'' \<mapsto> [''ebitda_margin_improvement'' \<mapsto> PInt 30]]) = Inr results \<and>
     ''one_year'' \<in> set timeframes \<and>
     results ''one_year'' = Some projections \<and> projections \<noteq> Map.empty \<and>
     (\<exists>proj_rev margin net_margin.
        projections ''projected_revenue'' = Some (PFloat proj_rev) \<and>
        projections ''projected_ebitda_margin'' = Some (PFloat margin) \<and>
        0 \<le> margin \<and> margin \<le> 1 \<and>
        projections ''projected_net_margin'' = Some (PFloat net_margin) \<and>
        0 \<le> net_margin \<and> net_margin \<le> 1 \<and>
        projections ''projected_ebitda'' = Some (PFloat (proj_rev * margin)))"
proof -
  let ?b = "[''revenue'' \<mapsto> PInt 100, ''ebitda_margin'' \<mapsto> PFloat 0.95]"
  let ?a = "[''ebitda_margin_improvement'' \<mapsto> PInt 30]"
  let ?ga = "[''one_year'' \<mapsto> ?a]"
  have tf: "''one_year'' \<in> set timeframes"
    by (simp add: timeframes_def)
  have r: "fst (calculate_10k_projections ?b ?ga) = Inr (bundle_of ?b ?ga)"
    by (rule calculate_fst)
  have g: "?ga ''one_year'' = Some ?a"
    by simp
  have p: "bundle_of ?b ?ga ''one_year'' = Some (projection_of (figures_of ?b) ''one_year'' ?a)"
    using tf g by (rule bundle_of_timeframe)
  have ne: "projection_of (figures_of ?b) ''one_year'' ?a \<noteq> Map.empty"
    by (rule projection_of_nonempty)
  have c: "\<exists>proj_rev margin net_margin.
        projection_of (figures_of ?b) ''one_year'' ?a ''projected_revenue'' = Some (PFloat proj_rev) \<and>
        projection_of (figures_of ?b) ''one_year'' ?a ''projected_ebitda_margin'' = Some (PFloat margin) \<and>
        0 \<le> margin \<and> margin \<le> 1 \<and>
        projection_of (figures_of ?b) ''one_year'' ?a ''projected_net_margin'' = Some (PFloat net_margin) \<and>
        0 \<le> net_margin \<and> net_margin \<le> 1 \<and>
        projection_of (figures_of ?b) ''one_year'' ?a ''projected_ebitda'' = Some (PFloat (proj_rev * margin))"
    using r tf p ne by (rule margins_clamped)
  show ?thesis
    apply (rule exI[of _ "bundle_of ?b ?ga"])
    apply (rule exI[of _ "projection_of (figures_of ?b) ''one_year'' ?a"])
    apply (intro conjI)
        apply (rule r)
       apply (rule tf)
      apply (rule p)
     apply (rule ne)
    apply (rule c)
    done
qed







section \<open>Properties of the document orchestrator\<close>






















end
